theory Spec2Isabelle
  imports Main "HOL-Library.Word"
begin

section \<open>Go values used by package kube\<close>

text \<open>
  The package \<^verbatim>\<open>pilot/pkg/serviceregistry/kube\<close> (file \<^verbatim>\<open>client.go\<close>) reads the process
  environment, the current user and file metadata, and calls the Kubernetes client
  library. Everything it reads is a field of an explicit world; every call it makes to a
  collaborator is appended, in program order, to a list of events that the model returns
  next to the Go return values.
\<close>

text \<open>The error numbers a \<^verbatim>\<open>stat\<close> system call reports.\<close>

datatype errno = ENOENT | EACCES | ENOTDIR | ELOOP | ENAMETOOLONG | EIO

text \<open>
  Go \<^verbatim>\<open>error\<close> values: \<^verbatim>\<open>*os.PathError{Op, Path, Err}\<close>, the value of
  \<^verbatim>\<open>fmt.Errorf(format, args...)\<close> kept as its format and its arguments,
  \<^verbatim>\<open>*multierror.Error{Errors}\<close>, and an error of a collaborating library.
\<close>

datatype error =
    PathError string string errno
  | Errorf string "string list"
  | MultiError "error list"
  | LibError string

text \<open>\<^verbatim>\<open>os.FileInfo\<close>: only \<^verbatim>\<open>Size() int64\<close> is read. \<^verbatim>\<open>user.User\<close>: only \<^verbatim>\<open>HomeDir\<close>.\<close>

record FileInfo =
  Size :: "64 word"

record User =
  HomeDir :: string

text \<open>
  What the resolver reads: the environment (a variable is unset or has a value), the
  result of \<^verbatim>\<open>user.Current()\<close>, and the file system's answer to \<^verbatim>\<open>stat\<close> on a
  path.
\<close>

record os_world =
  environ :: "string \<rightharpoonup> string"
  current_user :: "error + User"
  fs :: "string \<Rightarrow> errno + FileInfo"

datatype event = Getenv string | UserCurrent | Stat string | LogInfo string

text \<open>\<^verbatim>\<open>os.Getenv\<close>: the value, which is empty when the variable is not present.\<close>

definition os_Getenv :: "os_world \<Rightarrow> string \<Rightarrow> string" where
  "os_Getenv w key = (case environ w key of None \<Rightarrow> [] | Some v \<Rightarrow> v)"

text \<open>
  \<^verbatim>\<open>os.Stat\<close>: a failure is a \<^verbatim>\<open>*PathError\<close> with operation \<^verbatim>\<open>stat\<close>. The empty name
  denotes no file: the system call answers \<^verbatim>\<open>ENOENT\<close> for it, whatever the file system
  holds.
\<close>

definition os_Stat :: "os_world \<Rightarrow> string \<Rightarrow> error + FileInfo" where
  "os_Stat w name =
     (if name = [] then Inl (PathError ''stat'' name ENOENT)
      else case fs w name of
             Inl e \<Rightarrow> Inl (PathError ''stat'' name e)
           | Inr info \<Rightarrow> Inr info)"

text \<open>\<^verbatim>\<open>os.IsNotExist\<close>: the error underlying a \<^verbatim>\<open>*PathError\<close> is \<^verbatim>\<open>ENOENT\<close>.\<close>

fun os_IsNotExist :: "error \<Rightarrow> bool" where
  "os_IsNotExist (PathError op path e) = (e = ENOENT)"
| "os_IsNotExist (Errorf f args) = False"
| "os_IsNotExist (MultiError es) = False"
| "os_IsNotExist (LibError m) = False"

text \<open>
  \<^verbatim>\<open>multierror.Append(err, errs...)\<close>: the errors of \<^verbatim>\<open>err\<close> (itself, when it is not a
  \<^verbatim>\<open>*multierror.Error\<close>) followed by \<^verbatim>\<open>errs\<close>, where an argument that is a
  \<^verbatim>\<open>*multierror.Error\<close> contributes its own errors.
\<close>

fun multierror_flatten :: "error list \<Rightarrow> error list" where
  "multierror_flatten [] = []"
| "multierror_flatten (MultiError es # rest) = es @ multierror_flatten rest"
| "multierror_flatten (e # rest) = e # multierror_flatten rest"

fun multierror_Append :: "error \<Rightarrow> error list \<Rightarrow> error" where
  "multierror_Append (MultiError es) errs = MultiError (es @ multierror_flatten errs)"
| "multierror_Append err errs = MultiError (multierror_flatten (err # errs))"

section \<open>ResolveConfig\<close>

text \<open>
  Lines 39 to 51 of \<^verbatim>\<open>ResolveConfig\<close>: the value of the variable \<^verbatim>\<open>kubeconfig\<close> when
  line 52 is reached, with the calls made on the way.
  \<^verbatim>\<open>
  if kubeconfig == "" { kubeconfig = os.Getenv("KUBECONFIG") }
  if kubeconfig == "" {
      usr, err := user.Current()
      if err == nil {
          defaultCfg := usr.HomeDir + "/.kube/config"
          _, err := os.Stat(kubeconfig)
          if err != nil { kubeconfig = defaultCfg }
      }
  }
  \<close>
\<close>

definition resolveCandidate :: "os_world \<Rightarrow> string \<Rightarrow> string \<times> event list" where
  "resolveCandidate w kubeconfig0 =
     (let (kubeconfig, t) =
            (if kubeconfig0 = []
             then (os_Getenv w ''KUBECONFIG'', [Getenv ''KUBECONFIG''])
             else (kubeconfig0, []))
      in if kubeconfig = [] then
           (case current_user w of
              Inl err \<Rightarrow> (kubeconfig, t @ [UserCurrent])
            | Inr usr \<Rightarrow>
                (let defaultCfg = HomeDir usr @ ''/.kube/config''
                 in case os_Stat w kubeconfig of
                      Inl err \<Rightarrow> (defaultCfg, t @ [UserCurrent, Stat kubeconfig])
                    | Inr info \<Rightarrow> (kubeconfig, t @ [UserCurrent, Stat kubeconfig])))
         else (kubeconfig, t))"

text \<open>
  The whole function: the Go pair \<^verbatim>\<open>(string, error)\<close>, a nil error being \<open>None\<close>, and
  the events.
  \<^verbatim>\<open>
  if kubeconfig != "" {
      info, err := os.Stat(kubeconfig)
      if err != nil {
          if os.IsNotExist(err) {
              err = fmt.Errorf("kubernetes configuration file %q does not exist", kubeconfig)
          } else {
              err = multierror.Append(err, fmt.Errorf("kubernetes configuration file %q", kubeconfig))
          }
          return "", err
      }
      if info.Size() == 0 {
          log.Info("using in-cluster configuration")
          return "", nil
      }
  }
  return kubeconfig, nil
  \<close>
\<close>

definition ResolveConfig :: "os_world \<Rightarrow> string \<Rightarrow> (string \<times> error option) \<times> event list" where
  "ResolveConfig w kubeconfig0 =
     (let (kubeconfig, t) = resolveCandidate w kubeconfig0
      in if kubeconfig \<noteq> [] then
           (case os_Stat w kubeconfig of
              Inl err \<Rightarrow>
                (if os_IsNotExist err
                 then (([], Some (Errorf ''kubernetes configuration file %q does not exist''
                                    [kubeconfig])),
                       t @ [Stat kubeconfig])
                 else (([], Some (multierror_Append err
                                    [Errorf ''kubernetes configuration file %q'' [kubeconfig]])),
                       t @ [Stat kubeconfig]))
            | Inr info \<Rightarrow>
                (if Size info = 0
                 then (([], None),
                       t @ [Stat kubeconfig, LogInfo ''using in-cluster configuration''])
                 else ((kubeconfig, None), t @ [Stat kubeconfig])))
         else ((kubeconfig, None), t))"

text \<open>The candidate path, the returned pair and the events, by name.\<close>

definition candidate :: "os_world \<Rightarrow> string \<Rightarrow> string" where
  "candidate w k = fst (resolveCandidate w k)"

definition resolved :: "os_world \<Rightarrow> string \<Rightarrow> string \<times> error option" where
  "resolved w k = fst (ResolveConfig w k)"

definition calls :: "os_world \<Rightarrow> string \<Rightarrow> event list" where
  "calls w k = snd (ResolveConfig w k)"

text \<open>
  Worlds for the examples: three configuration files, two empty files, a path that cannot
  be searched; an operator with \<^verbatim>\<open>KUBECONFIG\<close> set, the same operator without it, the
  user root without it, and a process whose user cannot be determined.
\<close>

definition demo_fs :: "string \<Rightarrow> errno + FileInfo" where
  "demo_fs p =
     (if p = ''/a/cfg'' then Inr \<lparr>Size = 120\<rparr>
      else if p = ''/b/cfg'' then Inr \<lparr>Size = 64\<rparr>
      else if p = ''/home/op/.kube/config'' then Inr \<lparr>Size = 300\<rparr>
      else if p = ''/empty'' then Inr \<lparr>Size = 0\<rparr>
      else if p = ''/root/.kube/config'' then Inr \<lparr>Size = 0\<rparr>
      else if p = ''/locked/cfg'' then Inl EACCES
      else Inl ENOENT)"

definition demo_world :: os_world where
  "demo_world =
     \<lparr>environ = [''KUBECONFIG'' \<mapsto> ''/b/cfg''],
      current_user = Inr \<lparr>HomeDir = ''/home/op''\<rparr>,
      fs = demo_fs\<rparr>"

definition no_env_world :: os_world where
  "no_env_world = demo_world\<lparr>environ := Map.empty\<rparr>"

definition root_world :: os_world where
  "root_world = no_env_world\<lparr>current_user := Inr \<lparr>HomeDir = ''/root''\<rparr>\<rparr>"

definition no_user_world :: os_world where
  "no_user_world =
     demo_world\<lparr>environ := [''KUBECONFIG'' \<mapsto> []],
                 current_user := Inl (LibError ''user: Current not implemented'')\<rparr>"

section \<open>CreateInterface\<close>

text \<open>
  \<^verbatim>\<open>clientcmd.ConfigOverrides\<close> of the client library. Its nested structures
  (\<^verbatim>\<open>AuthInfo\<close>, \<^verbatim>\<open>ClusterDefaults\<close>, \<^verbatim>\<open>ClusterInfo\<close>, \<^verbatim>\<open>Context\<close>) are kept as the list
  of their fields that are set, by name; the two strings as they are. The composite
  literal \<^verbatim>\<open>clientcmd.ConfigOverrides{}\<close> is the value with nothing set.
\<close>

record ConfigOverrides =
  AuthInfo :: "(string \<times> string) list"
  ClusterDefaults :: "(string \<times> string) list"
  ClusterInfo :: "(string \<times> string) list"
  Context :: "(string \<times> string) list"
  CurrentContext :: string
  Timeout :: string

definition ConfigOverrides_zero :: ConfigOverrides where
  "ConfigOverrides_zero =
     \<lparr>AuthInfo = [], ClusterDefaults = [], ClusterInfo = [], Context = [],
      CurrentContext = [], Timeout = []\<rparr>"

text \<open>
  The client library, over its own types: \<open>'cfg\<close> is \<^verbatim>\<open>clientcmdapi.Config\<close>, \<open>'cc\<close> is
  \<^verbatim>\<open>clientcmd.ClientConfig\<close>, \<open>'rc\<close> is \<^verbatim>\<open>rest.Config\<close> and \<open>'cl\<close> is the client set behind
  \<^verbatim>\<open>kubernetes.Interface\<close>. A library function that returns \<^verbatim>\<open>(*T, error)\<close> returns either
  an error or a value that is not nil.
\<close>

record ('cfg, 'cc, 'rc, 'cl) kube_lib =
  rest_InClusterConfig :: "error + 'rc"
  kubernetes_NewForConfig :: "'rc \<Rightarrow> error + 'cl"
  clientcmd_LoadFromFile :: "string \<Rightarrow> error + 'cfg"
  clientcmd_NewDefaultClientConfig :: "'cfg \<Rightarrow> ConfigOverrides \<Rightarrow> 'cc"
  ClientConfig :: "'cc \<Rightarrow> error + 'rc"

datatype ('cfg, 'cc, 'rc) call =
    Os event
  | InClusterConfig
  | NewForConfig 'rc
  | LoadFromFile string
  | NewDefaultClientConfig 'cfg ConfigOverrides
  | ClientConfigOf 'cc

text \<open>
  A call either returns or panics. The three Go return values
  \<^verbatim>\<open>(*rest.Config, kubernetes.Interface, error)\<close> are options, \<open>None\<close> being nil.
\<close>

datatype 'a outcome = Panic string | Return 'a

type_synonym ('rc, 'cl) iface = "'rc option \<times> 'cl option \<times> error option"

text \<open>
  \<^verbatim>\<open>
  func createInterface(clusterConfig *clientcmdapi.Config) (*rest.Config, kubernetes.Interface, error) {
      clientConfig := clientcmd.NewDefaultClientConfig(*clusterConfig, &clientcmd.ConfigOverrides{})
      rest, err := clientConfig.ClientConfig()
      if err != nil { return nil, nil, err }
      client, err := kubernetes.NewForConfig(rest)
      if err != nil { return nil, nil, err }
      return rest, client, nil
  }
  \<close>
  The argument is a pointer: \<open>None\<close> is nil, and \<^verbatim>\<open>*clusterConfig\<close> on nil is a run-time
  panic.
\<close>

definition createInterface ::
  "('cfg, 'cc, 'rc, 'cl) kube_lib \<Rightarrow> 'cfg option \<Rightarrow>
   (('rc, 'cl) iface \<times> ('cfg, 'cc, 'rc) call list) outcome" where
  "createInterface L clusterConfig =
     (case clusterConfig of
        None \<Rightarrow> Panic ''invalid memory address or nil pointer dereference''
      | Some cfg \<Rightarrow>
          (let clientConfig = clientcmd_NewDefaultClientConfig L cfg ConfigOverrides_zero;
               t = [NewDefaultClientConfig cfg ConfigOverrides_zero, ClientConfigOf clientConfig]
           in case ClientConfig L clientConfig of
                Inl err \<Rightarrow> Return ((None, None, Some err), t)
              | Inr rest \<Rightarrow>
                  (case kubernetes_NewForConfig L rest of
                     Inl err \<Rightarrow> Return ((None, None, Some err), t @ [NewForConfig rest])
                   | Inr client \<Rightarrow>
                       Return ((Some rest, Some client, None), t @ [NewForConfig rest]))))"

definition CreateInterfaceFromClusterConfig ::
  "('cfg, 'cc, 'rc, 'cl) kube_lib \<Rightarrow> 'cfg option \<Rightarrow>
   (('rc, 'cl) iface \<times> ('cfg, 'cc, 'rc) call list) outcome" where
  "CreateInterfaceFromClusterConfig L clusterConfig = createInterface L clusterConfig"

text \<open>
  \<^verbatim>\<open>
  func CreateInterface(kubeconfig string) (*rest.Config, kubernetes.Interface, error) {
      kube, err := ResolveConfig(kubeconfig)
      if err != nil { return nil, nil, err }
      if kube == "" {
          restConfig, err1 := rest.InClusterConfig()
          if err1 == nil {
              client, err2 := kubernetes.NewForConfig(restConfig)
              if err2 == nil { return restConfig, client, nil }
              return nil, nil, err2
          }
          return nil, nil, err1
      }
      clusterConfig, err := clientcmd.LoadFromFile(kube)
      if err != nil { return nil, nil, err }
      return createInterface(clusterConfig)
  }
  \<close>
\<close>

definition CreateInterface ::
  "os_world \<Rightarrow> ('cfg, 'cc, 'rc, 'cl) kube_lib \<Rightarrow> string \<Rightarrow>
   (('rc, 'cl) iface \<times> ('cfg, 'cc, 'rc) call list) outcome" where
  "CreateInterface w L kubeconfig =
     (let ((kube, err), t0) = ResolveConfig w kubeconfig;
          t = map Os t0
      in case err of
           Some e \<Rightarrow> Return ((None, None, Some e), t)
         | None \<Rightarrow>
             if kube = [] then
               (case rest_InClusterConfig L of
                  Inr restConfig \<Rightarrow>
                    (case kubernetes_NewForConfig L restConfig of
                       Inr client \<Rightarrow>
                         Return ((Some restConfig, Some client, None),
                                 t @ [InClusterConfig, NewForConfig restConfig])
                     | Inl err2 \<Rightarrow>
                         Return ((None, None, Some err2),
                                 t @ [InClusterConfig, NewForConfig restConfig]))
                | Inl err1 \<Rightarrow> Return ((None, None, Some err1), t @ [InClusterConfig]))
             else
               (case clientcmd_LoadFromFile L kube of
                  Inl err \<Rightarrow> Return ((None, None, Some err), t @ [LoadFromFile kube])
                | Inr clusterConfig \<Rightarrow>
                    (case createInterface L (Some clusterConfig) of
                       Panic msg \<Rightarrow> Panic msg
                     | Return (r, t') \<Rightarrow> Return (r, t @ [LoadFromFile kube] @ t'))))"

text \<open>
  The shape of a returned triple: both values with a nil error, or neither value with
  an error.
\<close>

fun both_or_neither :: "('rc, 'cl) iface \<Rightarrow> bool" where
  "both_or_neither (Some rc, Some cl, None) = True"
| "both_or_neither (None, None, Some e) = True"
| "both_or_neither r = False"

text \<open>A call keeps the promise when it returns, and returns a triple of that shape.\<close>

fun returns_both_or_neither :: "(('rc, 'cl) iface \<times> 't) outcome \<Rightarrow> bool" where
  "returns_both_or_neither (Return (r, t)) = both_or_neither r"
| "returns_both_or_neither (Panic msg) = False"

fun is_LogInfo :: "event \<Rightarrow> bool" where
  "is_LogInfo (LogInfo m) = True"
| "is_LogInfo e = False"

fun reads_file_config :: "('cfg, 'cc, 'rc) call \<Rightarrow> bool" where
  "reads_file_config (LoadFromFile p) = True"
| "reads_file_config (NewDefaultClientConfig c ov) = True"
| "reads_file_config (ClientConfigOf cc) = True"
| "reads_file_config c = False"

fun overrides_of :: "('cfg, 'cc, 'rc) call list \<Rightarrow> ConfigOverrides list" where
  "overrides_of [] = []"
| "overrides_of (NewDefaultClientConfig c ov # cs) = ov # overrides_of cs"
| "overrides_of (c # cs) = overrides_of cs"

text \<open>
  A library for the examples, over strings: a configuration is its current context, a
  client configuration the context in force, a rest configuration the server address.
\<close>

definition demo_lib :: "(string, string, string, string) kube_lib" where
  "demo_lib =
     \<lparr>rest_InClusterConfig = Inl (LibError ''unable to load in-cluster configuration''),
      kubernetes_NewForConfig = (\<lambda>rc. if rc = [] then Inl (LibError ''no host'') else Inr (''client of '' @ rc)),
      clientcmd_LoadFromFile = (\<lambda>p. if p = ''/a/cfg'' then Inr ''prod'' else Inl (LibError ''yaml'')),
      clientcmd_NewDefaultClientConfig =
        (\<lambda>cfg ov. if CurrentContext ov = [] then cfg else CurrentContext ov),
      ClientConfig = (\<lambda>cc. if cc = ''prod'' then Inr ''https://prod:6443''
                            else Inl (LibError ''invalid configuration''))\<rparr>"

definition pod_lib :: "(string, string, string, string) kube_lib" where
  "pod_lib = demo_lib\<lparr>rest_InClusterConfig := Inr ''https://10.0.0.1:443''\<rparr>"

section \<open>Properties of ResolveConfig\<close>

subsection \<open>The candidate, by origin\<close>

lemma resolveCandidate_explicit:
  "k \<noteq> [] \<Longrightarrow> resolveCandidate w k = (k, [])"
  by (simp add: resolveCandidate_def)

lemma resolveCandidate_env:
  "environ w ''KUBECONFIG'' = Some v \<Longrightarrow> v \<noteq> [] \<Longrightarrow>
   resolveCandidate w [] = (v, [Getenv ''KUBECONFIG''])"
  by (simp add: resolveCandidate_def os_Getenv_def)

lemma resolveCandidate_home:
  "environ w ''KUBECONFIG'' = None \<or> environ w ''KUBECONFIG'' = Some [] \<Longrightarrow>
   current_user w = Inr usr \<Longrightarrow>
   resolveCandidate w [] =
     (HomeDir usr @ ''/.kube/config'', [Getenv ''KUBECONFIG'', UserCurrent, Stat []])"
  by (auto simp: resolveCandidate_def os_Getenv_def os_Stat_def)

lemma resolveCandidate_no_home:
  "environ w ''KUBECONFIG'' = None \<or> environ w ''KUBECONFIG'' = Some [] \<Longrightarrow>
   current_user w = Inl e \<Longrightarrow>
   resolveCandidate w [] = ([], [Getenv ''KUBECONFIG'', UserCurrent])"
  by (auto simp: resolveCandidate_def os_Getenv_def)

lemma resolveCandidate_no_log: "filter is_LogInfo (snd (resolveCandidate w k)) = []"
  by (simp add: resolveCandidate_def Let_def split: sum.splits)

lemma ResolveConfig_examine:
  "ResolveConfig w k =
     (if candidate w k = [] then (([], None), snd (resolveCandidate w k))
      else case fs w (candidate w k) of
             Inl e \<Rightarrow>
               (([], Some (if e = ENOENT
                           then Errorf ''kubernetes configuration file %q does not exist''
                                  [candidate w k]
                           else MultiError
                                  [PathError ''stat'' (candidate w k) e,
                                   Errorf ''kubernetes configuration file %q''
                                     [candidate w k]])),
                snd (resolveCandidate w k) @ [Stat (candidate w k)])
           | Inr info \<Rightarrow>
               (if Size info = 0
                then (([], None),
                      snd (resolveCandidate w k) @
                      [Stat (candidate w k), LogInfo ''using in-cluster configuration''])
                else ((candidate w k, None),
                      snd (resolveCandidate w k) @ [Stat (candidate w k)])))"
  by (simp add: ResolveConfig_def candidate_def os_Stat_def Let_def
           split: prod.splits sum.splits)

lemma ResolveConfig_frame:
  "k \<noteq> [] \<Longrightarrow> ResolveConfig (w\<lparr>environ := env', current_user := usr'\<rparr>) k = ResolveConfig w k"
  by (simp add: ResolveConfig_def resolveCandidate_explicit os_Stat_def)

lemma ResolveConfig_frame_env:
  "environ w ''KUBECONFIG'' = Some v \<Longrightarrow> v \<noteq> [] \<Longrightarrow>
   ResolveConfig (w\<lparr>current_user := usr'\<rparr>) [] = ResolveConfig w []"
  by (simp add: ResolveConfig_def resolveCandidate_env os_Stat_def)

subsection \<open>Specified behaviour of the resolver\<close>

text \<open>
  C1. A non-empty explicit path is the candidate: no environment variable is read, the
  current user is not looked up, and the result is the same whatever the environment
  and the user are. With an empty explicit path and \<^verbatim>\<open>KUBECONFIG\<close> set to a non-empty value,
  that value is the candidate, the current user is not looked up and the result does not
  depend on it. With \<^verbatim>\<open>/a/cfg\<close> given, \<^verbatim>\<open>KUBECONFIG=/b/cfg\<close> and both files existing and
  non-empty, the result is \<^verbatim>\<open>/a/cfg\<close> with a nil error.
\<close>

theorem C1_priority_order:
  "(k \<noteq> [] \<longrightarrow>
      candidate w k = k \<and> Getenv n \<notin> set (calls w k) \<and> UserCurrent \<notin> set (calls w k) \<and>
      ResolveConfig (w\<lparr>environ := env', current_user := usr'\<rparr>) k = ResolveConfig w k) \<and>
   (environ w ''KUBECONFIG'' = Some v \<and> v \<noteq> [] \<longrightarrow>
      candidate w [] = v \<and> UserCurrent \<notin> set (calls w []) \<and>
      ResolveConfig (w\<lparr>current_user := usr'\<rparr>) [] = ResolveConfig w []) \<and>
   (fs w ''/a/cfg'' = Inr ia \<and> Size ia \<noteq> 0 \<and>
    environ w ''KUBECONFIG'' = Some ''/b/cfg'' \<and> fs w ''/b/cfg'' = Inr ib \<and> Size ib \<noteq> 0 \<longrightarrow>
      resolved w ''/a/cfg'' = (''/a/cfg'', None))"
proof (intro conjI impI)
  assume k: "k \<noteq> []"
  then show "candidate w k = k"
    by (simp add: candidate_def resolveCandidate_explicit)
  from k show "Getenv n \<notin> set (calls w k)"
    by (simp add: calls_def ResolveConfig_examine candidate_def resolveCandidate_explicit
             Let_def split: sum.splits)
  from k show "UserCurrent \<notin> set (calls w k)"
    by (simp add: calls_def ResolveConfig_examine candidate_def resolveCandidate_explicit
             Let_def split: sum.splits)
  from k show "ResolveConfig (w\<lparr>environ := env', current_user := usr'\<rparr>) k = ResolveConfig w k"
    by (rule ResolveConfig_frame)
next
  assume e: "environ w ''KUBECONFIG'' = Some v \<and> v \<noteq> []"
  then show "candidate w [] = v"
    by (simp add: candidate_def resolveCandidate_env)
  from e show "UserCurrent \<notin> set (calls w [])"
    by (simp add: calls_def ResolveConfig_examine candidate_def resolveCandidate_env Let_def
             split: sum.splits)
  from e show "ResolveConfig (w\<lparr>current_user := usr'\<rparr>) [] = ResolveConfig w []"
    by (simp add: ResolveConfig_frame_env)
next
  assume "fs w ''/a/cfg'' = Inr ia \<and> Size ia \<noteq> 0 \<and>
    environ w ''KUBECONFIG'' = Some ''/b/cfg'' \<and> fs w ''/b/cfg'' = Inr ib \<and> Size ib \<noteq> 0"
  then show "resolved w ''/a/cfg'' = (''/a/cfg'', None)"
    by (simp add: resolved_def ResolveConfig_examine candidate_def resolveCandidate_explicit)
qed

theorem C1_priority_order_witness:
  "candidate demo_world ''/a/cfg'' = ''/a/cfg'' \<and>
   calls demo_world ''/a/cfg'' = [Stat ''/a/cfg''] \<and>
   environ demo_world ''KUBECONFIG'' = Some ''/b/cfg'' \<and>
   candidate demo_world [] = ''/b/cfg'' \<and>
   calls demo_world [] = [Getenv ''KUBECONFIG'', Stat ''/b/cfg''] \<and>
   fs demo_world ''/a/cfg'' = Inr \<lparr>Size = 120\<rparr> \<and>
   fs demo_world ''/b/cfg'' = Inr \<lparr>Size = 64\<rparr> \<and>
   resolved demo_world ''/a/cfg'' = (''/a/cfg'', None)"
  using C1_priority_order [where k = "''/a/cfg''" and w = demo_world and v = "''/b/cfg''"
      and ia = "\<lparr>Size = 120\<rparr>" and ib = "\<lparr>Size = 64\<rparr>"]
  by (simp add: demo_world_def demo_fs_def calls_def ResolveConfig_examine candidate_def
        resolveCandidate_def os_Getenv_def)

text \<open>
  C3. With an empty explicit path and \<^verbatim>\<open>KUBECONFIG\<close> unset or empty, whenever
  \<^verbatim>\<open>user.Current()\<close> succeeds the candidate is the home directory followed by
  \<^verbatim>\<open>/.kube/config\<close>: the guarding \<^verbatim>\<open>os.Stat\<close> is called on the empty path, it fails, and
  the default is the path that is examined next.
\<close>

theorem C3_home_default_adopted:
  assumes "environ w ''KUBECONFIG'' = None \<or> environ w ''KUBECONFIG'' = Some []"
    and "current_user w = Inr usr"
  shows "candidate w [] = HomeDir usr @ ''/.kube/config'' \<and>
         snd (resolveCandidate w []) = [Getenv ''KUBECONFIG'', UserCurrent, Stat []] \<and>
         os_Stat w [] = Inl (PathError ''stat'' [] ENOENT) \<and>
         Stat (HomeDir usr @ ''/.kube/config'') \<in> set (calls w [])"
proof -
  from assms have c: "resolveCandidate w [] =
      (HomeDir usr @ ''/.kube/config'', [Getenv ''KUBECONFIG'', UserCurrent, Stat []])"
    by (rule resolveCandidate_home)
  have s: "os_Stat w [] = Inl (PathError ''stat'' [] ENOENT)"
    by (simp add: os_Stat_def)
  from c have "Stat (HomeDir usr @ ''/.kube/config'') \<in> set (calls w [])"
    by (simp add: calls_def ResolveConfig_examine candidate_def split: sum.splits)
  with c s show ?thesis
    by (simp add: candidate_def)
qed

theorem C3_home_default_adopted_witness:
  "environ no_env_world ''KUBECONFIG'' = None \<and>
   current_user no_env_world = Inr \<lparr>HomeDir = ''/home/op''\<rparr> \<and>
   candidate no_env_world [] = ''/home/op/.kube/config'' \<and>
   resolved no_env_world [] = (''/home/op/.kube/config'', None)"
  using C3_home_default_adopted [of no_env_world "\<lparr>HomeDir = ''/home/op''\<rparr>"]
  by (simp add: no_env_world_def demo_world_def demo_fs_def resolved_def
        ResolveConfig_examine)

text \<open>
  C4. Whatever the origin of the candidate, when it names an existing file of size zero
  \<^verbatim>\<open>ResolveConfig\<close> returns the empty path with a nil error, and exactly one
  informational message is logged.
\<close>

theorem C4_empty_file_in_cluster:
  assumes "candidate w k \<noteq> []" and "fs w (candidate w k) = Inr info" and "Size info = 0"
  shows "resolved w k = ([], None) \<and>
         filter is_LogInfo (calls w k) = [LogInfo ''using in-cluster configuration'']"
  using assms
  by (simp add: resolved_def calls_def ResolveConfig_examine resolveCandidate_no_log)

theorem C4_empty_file_in_cluster_witness:
  "candidate demo_world ''/empty'' = ''/empty'' \<and>
   fs demo_world ''/empty'' = Inr \<lparr>Size = 0\<rparr> \<and>
   ResolveConfig demo_world ''/empty'' =
     (([], None), [Stat ''/empty'', LogInfo ''using in-cluster configuration'']) \<and>
   candidate (demo_world\<lparr>environ := [''KUBECONFIG'' \<mapsto> ''/empty'']\<rparr>) [] = ''/empty'' \<and>
   resolved (demo_world\<lparr>environ := [''KUBECONFIG'' \<mapsto> ''/empty'']\<rparr>) [] = ([], None) \<and>
   candidate root_world [] = ''/root/.kube/config'' \<and>
   fs root_world ''/root/.kube/config'' = Inr \<lparr>Size = 0\<rparr> \<and>
   resolved root_world [] = ([], None) \<and>
   filter is_LogInfo (calls root_world []) = [LogInfo ''using in-cluster configuration'']"
  using C4_empty_file_in_cluster [of demo_world "''/empty''" "\<lparr>Size = 0\<rparr>"]
    C4_empty_file_in_cluster [of "demo_world\<lparr>environ := [''KUBECONFIG'' \<mapsto> ''/empty'']\<rparr>" "[]"
      "\<lparr>Size = 0\<rparr>"]
    C4_empty_file_in_cluster [of root_world "[]" "\<lparr>Size = 0\<rparr>"]
  by (simp add: root_world_def no_env_world_def demo_world_def demo_fs_def
        ResolveConfig_examine candidate_def resolveCandidate_def os_Getenv_def os_Stat_def)

text \<open>
  C5. When the stat of a non-empty candidate fails with \<^verbatim>\<open>ENOENT\<close>, the error returned is
  the does-not-exist message formatted with that path; when it fails with any other error
  number, the error returned holds the \<^verbatim>\<open>*PathError\<close> of the stat and a message formatted
  with the path. The returned path is empty in both cases.
\<close>

theorem C5_stat_failures:
  assumes "candidate w k \<noteq> []" and "fs w (candidate w k) = Inl e"
  shows "(e = ENOENT \<longrightarrow>
            resolved w k =
              ([], Some (Errorf ''kubernetes configuration file %q does not exist''
                           [candidate w k]))) \<and>
         (e \<noteq> ENOENT \<longrightarrow>
            resolved w k =
              ([], Some (MultiError [PathError ''stat'' (candidate w k) e,
                                     Errorf ''kubernetes configuration file %q''
                                       [candidate w k]])))"
  using assms by (simp add: resolved_def ResolveConfig_examine)

theorem C5_stat_failures_witness:
  "candidate demo_world ''/missing'' = ''/missing'' \<and>
   fs demo_world ''/missing'' = Inl ENOENT \<and>
   resolved demo_world ''/missing'' =
     ([], Some (Errorf ''kubernetes configuration file %q does not exist'' [''/missing''])) \<and>
   candidate demo_world ''/locked/cfg'' = ''/locked/cfg'' \<and>
   fs demo_world ''/locked/cfg'' = Inl EACCES \<and>
   resolved demo_world ''/locked/cfg'' =
     ([], Some (MultiError [PathError ''stat'' ''/locked/cfg'' EACCES,
                            Errorf ''kubernetes configuration file %q'' [''/locked/cfg'']]))"
  using C5_stat_failures [of demo_world "''/missing''" ENOENT]
    C5_stat_failures [of demo_world "''/locked/cfg''" EACCES]
  by (simp add: demo_world_def demo_fs_def candidate_def resolveCandidate_explicit)

text \<open>
  C7. With an empty explicit path, \<^verbatim>\<open>KUBECONFIG\<close> unset or empty and \<^verbatim>\<open>user.Current()\<close>
  failing, \<^verbatim>\<open>ResolveConfig\<close> returns the empty path with a nil error, after reading the
  variable and asking for the user, and nothing else.
\<close>

theorem C7_no_home_in_cluster:
  assumes "environ w ''KUBECONFIG'' = None \<or> environ w ''KUBECONFIG'' = Some []"
    and "current_user w = Inl e"
  shows "ResolveConfig w [] = (([], None), [Getenv ''KUBECONFIG'', UserCurrent])"
  using resolveCandidate_no_home [OF assms]
  by (simp add: ResolveConfig_examine candidate_def)

theorem C7_no_home_in_cluster_witness:
  "environ no_user_world ''KUBECONFIG'' = Some [] \<and>
   current_user no_user_world = Inl (LibError ''user: Current not implemented'') \<and>
   resolved no_user_world [] = ([], None) \<and>
   calls no_user_world [] = [Getenv ''KUBECONFIG'', UserCurrent]"
  using C7_no_home_in_cluster [of no_user_world "LibError ''user: Current not implemented''"]
  by (simp add: no_user_world_def demo_world_def resolved_def calls_def)

text \<open>
  C8. When the candidate names an existing file whose size is not zero,
  \<^verbatim>\<open>ResolveConfig\<close> returns the candidate itself with a nil error.
\<close>

theorem C8_existing_file_unchanged:
  assumes "candidate w k \<noteq> []" and "fs w (candidate w k) = Inr info" and "Size info \<noteq> 0"
  shows "resolved w k = (candidate w k, None)"
  using assms by (simp add: resolved_def ResolveConfig_examine)

theorem C8_existing_file_unchanged_witness:
  "candidate demo_world ''/a/cfg'' = ''/a/cfg'' \<and>
   fs demo_world ''/a/cfg'' = Inr \<lparr>Size = 120\<rparr> \<and>
   resolved demo_world ''/a/cfg'' = (''/a/cfg'', None) \<and>
   candidate demo_world [] = ''/b/cfg'' \<and>
   resolved demo_world [] = (''/b/cfg'', None) \<and>
   candidate no_env_world [] = ''/home/op/.kube/config'' \<and>
   resolved no_env_world [] = (''/home/op/.kube/config'', None)"
  using C8_existing_file_unchanged [of demo_world "''/a/cfg''" "\<lparr>Size = 120\<rparr>"]
    C8_existing_file_unchanged [of demo_world "[]" "\<lparr>Size = 64\<rparr>"]
    C8_existing_file_unchanged [of no_env_world "[]" "\<lparr>Size = 300\<rparr>"]
  by (simp add: no_env_world_def demo_world_def demo_fs_def candidate_def
        resolveCandidate_def os_Getenv_def os_Stat_def)

text \<open>
  C10. Whenever \<^verbatim>\<open>ResolveConfig\<close> returns an error the returned path is empty, and a
  non-empty returned path comes with a nil error.
\<close>

theorem C10_error_means_empty_path:
  "(snd (resolved w k) \<noteq> None \<longrightarrow> fst (resolved w k) = []) \<and>
   (fst (resolved w k) \<noteq> [] \<longrightarrow> snd (resolved w k) = None)"
  by (simp add: resolved_def ResolveConfig_examine Let_def split: sum.splits)

theorem C10_error_means_empty_path_witness:
  "resolved demo_world ''/missing'' =
     ([], Some (Errorf ''kubernetes configuration file %q does not exist'' [''/missing''])) \<and>
   resolved demo_world ''/a/cfg'' = (''/a/cfg'', None)"
  using C10_error_means_empty_path [of demo_world "''/missing''"]
    C10_error_means_empty_path [of demo_world "''/a/cfg''"]
  by (simp add: resolved_def ResolveConfig_examine candidate_def resolveCandidate_explicit
        demo_world_def demo_fs_def)

section \<open>Properties of CreateInterface\<close>

subsection \<open>The three ways through CreateInterface\<close>

lemma createInterface_Some:
  "createInterface L (Some cfg) =
     (case ClientConfig L (clientcmd_NewDefaultClientConfig L cfg ConfigOverrides_zero) of
        Inl err \<Rightarrow>
          Return ((None, None, Some err),
                  [NewDefaultClientConfig cfg ConfigOverrides_zero,
                   ClientConfigOf (clientcmd_NewDefaultClientConfig L cfg ConfigOverrides_zero)])
      | Inr rest \<Rightarrow>
          (case kubernetes_NewForConfig L rest of
             Inl err \<Rightarrow>
               Return ((None, None, Some err),
                       [NewDefaultClientConfig cfg ConfigOverrides_zero,
                        ClientConfigOf
                          (clientcmd_NewDefaultClientConfig L cfg ConfigOverrides_zero),
                        NewForConfig rest])
           | Inr client \<Rightarrow>
               Return ((Some rest, Some client, None),
                       [NewDefaultClientConfig cfg ConfigOverrides_zero,
                        ClientConfigOf
                          (clientcmd_NewDefaultClientConfig L cfg ConfigOverrides_zero),
                        NewForConfig rest])))"
  by (simp add: createInterface_def Let_def split: sum.splits)

lemma createInterface_shape:
  "\<exists>r t. createInterface L (Some cfg) = Return (r, t) \<and> both_or_neither r \<and>
         overrides_of t = [ConfigOverrides_zero]"
  by (simp add: createInterface_Some split: sum.splits)

lemma CreateInterface_in_cluster:
  "ResolveConfig w k = (([], None), t0) \<Longrightarrow>
   CreateInterface w L k =
     (case rest_InClusterConfig L of
        Inl err1 \<Rightarrow> Return ((None, None, Some err1), map Os t0 @ [InClusterConfig])
      | Inr restConfig \<Rightarrow>
          (case kubernetes_NewForConfig L restConfig of
             Inl err2 \<Rightarrow>
               Return ((None, None, Some err2),
                       map Os t0 @ [InClusterConfig, NewForConfig restConfig])
           | Inr client \<Rightarrow>
               Return ((Some restConfig, Some client, None),
                       map Os t0 @ [InClusterConfig, NewForConfig restConfig])))"
  by (simp add: CreateInterface_def split: sum.splits)

lemma CreateInterface_failed:
  "ResolveConfig w k = ((p, Some e), t0) \<Longrightarrow>
   CreateInterface w L k = Return ((None, None, Some e), map Os t0)"
  by (simp add: CreateInterface_def)

lemma CreateInterface_file:
  "ResolveConfig w k = ((p, None), t0) \<Longrightarrow> p \<noteq> [] \<Longrightarrow>
   CreateInterface w L k =
     (case clientcmd_LoadFromFile L p of
        Inl err \<Rightarrow> Return ((None, None, Some err), map Os t0 @ [LoadFromFile p])
      | Inr clusterConfig \<Rightarrow>
          (case createInterface L (Some clusterConfig) of
             Panic msg \<Rightarrow> Panic msg
           | Return (r, t') \<Rightarrow> Return (r, map Os t0 @ [LoadFromFile p] @ t')))"
  by (simp add: CreateInterface_def split: sum.splits outcome.splits)

lemma overrides_of_append: "overrides_of (xs @ ys) = overrides_of xs @ overrides_of ys"
  by (induction xs rule: overrides_of.induct) simp_all

lemma overrides_of_Os: "overrides_of (map Os t) = []"
  by (induction t) simp_all

lemma reads_file_config_Os: "filter reads_file_config (map Os t) = []"
  by (induction t) simp_all

lemma CreateInterface_shape:
  "\<exists>r t. CreateInterface w L k = Return (r, t) \<and> both_or_neither r \<and>
         (overrides_of t = [] \<or> overrides_of t = [ConfigOverrides_zero])"
proof (cases "ResolveConfig w k")
  case (Pair pe t0)
  obtain p err where pe: "pe = (p, err)" by (cases pe)
  show ?thesis
  proof (cases err)
    case (Some e)
    with Pair pe show ?thesis
      by (simp add: CreateInterface_failed overrides_of_Os)
  next
    case None
    show ?thesis
    proof (cases "p = []")
      case True
      with Pair pe None have "ResolveConfig w k = (([], None), t0)" by simp
      then show ?thesis
        by (simp add: CreateInterface_in_cluster overrides_of_append overrides_of_Os
                 split: sum.splits)
    next
      case False
      from Pair pe None have r: "ResolveConfig w k = ((p, None), t0)" by simp
      show ?thesis
      proof (cases "clientcmd_LoadFromFile L p")
        case (Inl e)
        with r False show ?thesis
          by (simp add: CreateInterface_file overrides_of_append overrides_of_Os)
      next
        case (Inr cfg)
        obtain r' t' where c: "createInterface L (Some cfg) = Return (r', t')"
          and b: "both_or_neither r'" and ov: "overrides_of t' = [ConfigOverrides_zero]"
          using createInterface_shape [of L cfg] by blast
        from r False Inr c b ov show ?thesis
          by (simp add: CreateInterface_file overrides_of_append overrides_of_Os)
      qed
    qed
  qed
qed

subsection \<open>Specified behaviour of the builder\<close>

text \<open>
  C2, as the code has it. For every world, library and path \<^verbatim>\<open>CreateInterface\<close> returns,
  and what it returns is either a rest configuration and a client with a nil error, or
  two nils with an error. \<^verbatim>\<open>CreateInterfaceFromClusterConfig\<close> does the same for every
  pointer that is not nil, and panics on the nil pointer; it never returns exactly one of
  the two values.
\<close>

theorem C2_both_or_neither:
  "returns_both_or_neither (CreateInterface w L k) \<and>
   returns_both_or_neither (CreateInterfaceFromClusterConfig L (Some cfg)) \<and>
   CreateInterfaceFromClusterConfig L None =
     Panic ''invalid memory address or nil pointer dereference''"
proof (intro conjI)
  from CreateInterface_shape [of w L k]
  show "returns_both_or_neither (CreateInterface w L k)" by auto
  from createInterface_shape [of L cfg]
  show "returns_both_or_neither (CreateInterfaceFromClusterConfig L (Some cfg))"
    by (auto simp: CreateInterfaceFromClusterConfig_def)
  show "CreateInterfaceFromClusterConfig L None =
     Panic ''invalid memory address or nil pointer dereference''"
    by (simp add: CreateInterfaceFromClusterConfig_def createInterface_def)
qed

theorem C2_both_or_neither_witness:
  "CreateInterface demo_world demo_lib ''/a/cfg'' =
     Return ((Some ''https://prod:6443'', Some ''client of https://prod:6443'', None),
             [Os (Stat ''/a/cfg''), LoadFromFile ''/a/cfg'',
              NewDefaultClientConfig ''prod'' ConfigOverrides_zero, ClientConfigOf ''prod'',
              NewForConfig ''https://prod:6443'']) \<and>
   CreateInterface demo_world demo_lib ''/b/cfg'' =
     Return ((None, None, Some (LibError ''yaml'')),
             [Os (Stat ''/b/cfg''), LoadFromFile ''/b/cfg'']) \<and>
   CreateInterfaceFromClusterConfig demo_lib (Some ''staging'') =
     Return ((None, None, Some (LibError ''invalid configuration'')),
             [NewDefaultClientConfig ''staging'' ConfigOverrides_zero,
              ClientConfigOf ''staging''])"
  using C2_both_or_neither [of demo_world demo_lib "''/a/cfg''" "''staging''"]
    C2_both_or_neither [of demo_world demo_lib "''/b/cfg''" "''staging''"]
  by (simp add: demo_world_def demo_fs_def demo_lib_def CreateInterface_def
        CreateInterfaceFromClusterConfig_def createInterface_def ConfigOverrides_zero_def
        ResolveConfig_def os_Stat_def resolveCandidate_explicit Let_def)

text \<open>
  The nil pointer is an argument of \<^verbatim>\<open>CreateInterfaceFromClusterConfig\<close> for which no
  triple is returned at all: line 106 dereferences it.
\<close>

theorem C2_counterexample:
  "CreateInterfaceFromClusterConfig demo_lib None =
     Panic ''invalid memory address or nil pointer dereference'' \<and>
   \<not> returns_both_or_neither (CreateInterfaceFromClusterConfig demo_lib None)"
  by (simp add: CreateInterfaceFromClusterConfig_def createInterface_def)

text \<open>
  C6. When \<^verbatim>\<open>ResolveConfig\<close> yields the empty path with a nil error,
  \<^verbatim>\<open>CreateInterface\<close> calls \<^verbatim>\<open>rest.InClusterConfig\<close>. Its error is returned at once with
  two nils; its rest configuration is the one handed to \<^verbatim>\<open>kubernetes.NewForConfig\<close> and
  returned. In no case is a file loaded or a client configuration derived from one.
\<close>

theorem C6_in_cluster_no_fallback:
  assumes "resolved w k = ([], None)"
  shows "(rest_InClusterConfig L = Inl err1 \<longrightarrow>
            CreateInterface w L k =
              Return ((None, None, Some err1), map Os (calls w k) @ [InClusterConfig])) \<and>
         (rest_InClusterConfig L = Inr rc \<and> kubernetes_NewForConfig L rc = Inr cl \<longrightarrow>
            CreateInterface w L k =
              Return ((Some rc, Some cl, None),
                      map Os (calls w k) @ [InClusterConfig, NewForConfig rc])) \<and>
         (rest_InClusterConfig L = Inr rc \<and> kubernetes_NewForConfig L rc = Inl err2 \<longrightarrow>
            CreateInterface w L k =
              Return ((None, None, Some err2),
                      map Os (calls w k) @ [InClusterConfig, NewForConfig rc])) \<and>
         (\<exists>r t. CreateInterface w L k = Return (r, t) \<and> InClusterConfig \<in> set t \<and>
                filter reads_file_config t = [])"
proof -
  from assms have r: "ResolveConfig w k = (([], None), calls w k)"
    by (simp add: resolved_def calls_def prod_eq_iff)
  show ?thesis
    by (simp add: CreateInterface_in_cluster [OF r] reads_file_config_Os split: sum.splits)
qed

theorem C6_in_cluster_no_fallback_witness:
  "resolved demo_world ''/empty'' = ([], None) \<and>
   rest_InClusterConfig demo_lib = Inl (LibError ''unable to load in-cluster configuration'') \<and>
   CreateInterface demo_world demo_lib ''/empty'' =
     Return ((None, None, Some (LibError ''unable to load in-cluster configuration'')),
             [Os (Stat ''/empty''), Os (LogInfo ''using in-cluster configuration''),
              InClusterConfig]) \<and>
   rest_InClusterConfig pod_lib = Inr ''https://10.0.0.1:443'' \<and>
   kubernetes_NewForConfig pod_lib ''https://10.0.0.1:443'' =
     Inr ''client of https://10.0.0.1:443'' \<and>
   CreateInterface demo_world pod_lib ''/empty'' =
     Return ((Some ''https://10.0.0.1:443'', Some ''client of https://10.0.0.1:443'', None),
             [Os (Stat ''/empty''), Os (LogInfo ''using in-cluster configuration''),
              InClusterConfig, NewForConfig ''https://10.0.0.1:443''])"
  using C6_in_cluster_no_fallback [of demo_world "''/empty''" demo_lib
      "LibError ''unable to load in-cluster configuration''"]
    C6_in_cluster_no_fallback [of demo_world "''/empty''" pod_lib _
      "''https://10.0.0.1:443''" "''client of https://10.0.0.1:443''"]
  by (simp add: demo_world_def demo_fs_def demo_lib_def pod_lib_def resolved_def calls_def
        ResolveConfig_examine candidate_def resolveCandidate_explicit)

text \<open>
  C9. For every cluster configuration, \<^verbatim>\<open>createInterface\<close> (and so
  \<^verbatim>\<open>CreateInterfaceFromClusterConfig\<close>) makes exactly one call of
  \<^verbatim>\<open>clientcmd.NewDefaultClientConfig\<close>, with the overrides that set nothing, and asks the
  client configuration so obtained for the rest configuration; \<^verbatim>\<open>CreateInterface\<close> makes
  at most one such call, with the same overrides. What the library would do with other
  overrides has no effect on the result.
\<close>

theorem C9_empty_overrides:
  "(\<exists>r t. createInterface L (Some cfg) = Return (r, t) \<and>
          overrides_of t = [ConfigOverrides_zero] \<and>
          ClientConfigOf (clientcmd_NewDefaultClientConfig L cfg ConfigOverrides_zero)
            \<in> set t) \<and>
   (\<exists>r t. CreateInterfaceFromClusterConfig L (Some cfg) = Return (r, t) \<and>
          overrides_of t = [ConfigOverrides_zero]) \<and>
   (\<exists>r t. CreateInterface w L k = Return (r, t) \<and>
          (overrides_of t = [] \<or> overrides_of t = [ConfigOverrides_zero])) \<and>
   createInterface
     (L\<lparr>clientcmd_NewDefaultClientConfig :=
          \<lambda>c ov. clientcmd_NewDefaultClientConfig L c ConfigOverrides_zero\<rparr>) (Some cfg) =
   createInterface L (Some cfg)"
proof (intro conjI)
  show "\<exists>r t. createInterface L (Some cfg) = Return (r, t) \<and>
          overrides_of t = [ConfigOverrides_zero] \<and>
          ClientConfigOf (clientcmd_NewDefaultClientConfig L cfg ConfigOverrides_zero)
            \<in> set t"
    by (simp add: createInterface_Some split: sum.splits)
  show "\<exists>r t. CreateInterfaceFromClusterConfig L (Some cfg) = Return (r, t) \<and>
          overrides_of t = [ConfigOverrides_zero]"
    using createInterface_shape [of L cfg]
    by (auto simp: CreateInterfaceFromClusterConfig_def)
  show "\<exists>r t. CreateInterface w L k = Return (r, t) \<and>
          (overrides_of t = [] \<or> overrides_of t = [ConfigOverrides_zero])"
    using CreateInterface_shape [of w L k] by blast
  show "createInterface
     (L\<lparr>clientcmd_NewDefaultClientConfig :=
          \<lambda>c ov. clientcmd_NewDefaultClientConfig L c ConfigOverrides_zero\<rparr>) (Some cfg) =
   createInterface L (Some cfg)"
    by (simp add: createInterface_Some split: sum.splits)
qed

end
